theory Spec2Isabelle
  imports Complex_Main
begin

section \<open>Values shared by the three modules\<close>

text \<open>
  The positions an engine returns and the impulse vectors are pairs of real numbers: the
  engine is a parameter, and nothing proved about the loops depends on its arithmetic.
  Exceptions are values of \<open>py_error\<close>.
\<close>

type_synonym vec = "real \<times> real"

type_synonym trajectory = "vec list"

datatype py_error = IndexError | ValueError | KeyError

section \<open>Floating-point numbers\<close>

text \<open>
  The comparators compute in float64. A float is a finite value, an infinity or nan.
  \<open>Val x\<close> is written for every real \<open>x\<close>; the doubles are those \<open>x\<close> that \<open>fl\<close>
  leaves unchanged, and every operation returns one of them, so what holds for all \<open>Val x\<close>
  holds for the doubles. The two zeros are not told apart: they compare equal, and no
  operation used here separates them.
\<close>

datatype np_float = Val real | PosInf | NegInf | NaN

definition overflow_threshold :: real where
  \<comment> \<open>halfway between the largest double and \<open>2 ^ 1024\<close>; from here on rounding gives an
      infinity\<close>
  "overflow_threshold = 2 ^ 1024 - 2 ^ 970"

definition round_half_even :: "real \<Rightarrow> int" where
  \<comment> \<open>the nearest integer, a tie going to the even one\<close>
  "round_half_even y =
     (let f = \<lfloor>y\<rfloor>; d = y - of_int f
      in if d < 1 / 2 then f
         else if 1 / 2 < d then f + 1
         else if even f then f else f + 1)"

definition round_magnitude :: "real \<Rightarrow> real" where
  \<comment> \<open>the nearest double to \<open>x \<ge> 0\<close> below the overflow threshold: a multiple of
      \<open>2 ^ e\<close> with 53 significant bits, \<open>e\<close> not below the subnormal exponent\<close>
  "round_magnitude x =
     (let e = max (\<lfloor>log 2 x\<rfloor> - 52) (- 1074)
      in of_int (round_half_even (x / 2 powi e)) * 2 powi e)"

definition fl :: "real \<Rightarrow> np_float" where
  \<comment> \<open>round to nearest, ties to even\<close>
  "fl x =
     (if overflow_threshold \<le> \<bar>x\<bar> then (if 0 < x then PosInf else NegInf)
      else if x < 0 then Val (- round_magnitude (- x))
      else Val (round_magnitude x))"

fun fneg :: "np_float \<Rightarrow> np_float" where
  "fneg (Val x) = Val (- x)"
| "fneg PosInf = NegInf"
| "fneg NegInf = PosInf"
| "fneg NaN = NaN"

fun fadd :: "np_float \<Rightarrow> np_float \<Rightarrow> np_float" where
  "fadd (Val x) (Val y) = fl (x + y)"
| "fadd NaN b = NaN"
| "fadd a NaN = NaN"
| "fadd PosInf NegInf = NaN"
| "fadd NegInf PosInf = NaN"
| "fadd PosInf b = PosInf"
| "fadd a PosInf = PosInf"
| "fadd NegInf b = NegInf"
| "fadd a NegInf = NegInf"

definition fsub :: "np_float \<Rightarrow> np_float \<Rightarrow> np_float" where
  "fsub a b = fadd a (fneg b)"

fun fmul :: "np_float \<Rightarrow> np_float \<Rightarrow> np_float" where
  "fmul (Val x) (Val y) = fl (x * y)"
| "fmul NaN b = NaN"
| "fmul a NaN = NaN"
| "fmul (Val x) PosInf = (if x = 0 then NaN else if 0 < x then PosInf else NegInf)"
| "fmul (Val x) NegInf = (if x = 0 then NaN else if 0 < x then NegInf else PosInf)"
| "fmul PosInf (Val y) = (if y = 0 then NaN else if 0 < y then PosInf else NegInf)"
| "fmul NegInf (Val y) = (if y = 0 then NaN else if 0 < y then NegInf else PosInf)"
| "fmul PosInf PosInf = PosInf"
| "fmul PosInf NegInf = NegInf"
| "fmul NegInf PosInf = NegInf"
| "fmul NegInf NegInf = PosInf"

fun fdiv_count :: "np_float \<Rightarrow> nat \<Rightarrow> np_float" where
  \<comment> \<open>a float divided by a positive element count; a count that fits in memory converts
      to a float without rounding\<close>
  "fdiv_count (Val x) n = fl (x / real n)"
| "fdiv_count PosInf n = PosInf"
| "fdiv_count NegInf n = NegInf"
| "fdiv_count NaN n = NaN"

fun fsqrt :: "np_float \<Rightarrow> np_float" where
  "fsqrt (Val x) = (if x < 0 then NaN else fl (sqrt x))"
| "fsqrt PosInf = PosInf"
| "fsqrt NegInf = NaN"
| "fsqrt NaN = NaN"


section \<open>The array operations the comparators use\<close>

text \<open>
  A trajectory handed to a comparator is a list of pairs of floats. \<open>np.array\<close> of a list
  of \<open>n > 0\<close> points has shape \<open>(n, 2)\<close>; of the empty list it has shape \<open>(0,)\<close>. An
  \<open>farray\<close> stands for either, the empty list for the second. The sum inside \<open>np.mean\<close>
  is taken over the flattened array from left to right; numpy adds longer arrays in another
  grouping, which none of the properties proved below depends on.
\<close>

type_synonym fvec = "np_float \<times> np_float"

type_synonym farray = "fvec list"

definition as_floats :: "trajectory \<Rightarrow> farray" where
  \<comment> \<open>the positions of an engine of the embedding, as the floats they are in the program\<close>
  "as_floats t = map (\<lambda>p. (Val (fst p), Val (snd p))) t"

definition row_last :: "farray \<Rightarrow> py_error + fvec" where
  \<comment> \<open>\<open>t[-1]\<close>\<close>
  "row_last t = (if t = [] then Inl IndexError else Inr (last t))"

definition np_tile :: "fvec \<Rightarrow> nat \<Rightarrow> farray" where
  \<comment> \<open>\<open>np.tile(p, (k, 1))\<close>\<close>
  "np_tile p k = replicate k p"

definition np_vstack :: "farray \<Rightarrow> farray \<Rightarrow> farray" where
  "np_vstack t padding = t @ padding"

definition vsub :: "fvec \<Rightarrow> fvec \<Rightarrow> fvec" where
  "vsub p q = (fsub (fst p) (fst q), fsub (snd p) (snd q))"

definition np_sub :: "farray \<Rightarrow> farray \<Rightarrow> py_error + farray" where
  \<comment> \<open>\<open>t1 - t2\<close> with broadcasting: equal shapes, or one operand of shape \<open>(1, 2)\<close>
      against a shape \<open>(n, 2)\<close>; every other pair of shapes is refused\<close>
  "np_sub t1 t2 =
     (if length t1 = length t2 then Inr (map2 vsub t1 t2)
      else if length t1 = 1 \<and> t2 \<noteq> [] then Inr (map (\<lambda>q. vsub (hd t1) q) t2)
      else if length t2 = 1 \<and> t1 \<noteq> [] then Inr (map (\<lambda>p. vsub p (hd t2)) t1)
      else Inl ValueError)"

definition np_square :: "farray \<Rightarrow> farray" where
  \<comment> \<open>\<open>d ** 2\<close>: every element times itself, rounded\<close>
  "np_square d = map (\<lambda>p. (fmul (fst p) (fst p), fmul (snd p) (snd p))) d"

definition flatten :: "farray \<Rightarrow> np_float list" where
  "flatten d = concat (map (\<lambda>p. [fst p, snd p]) d)"

definition np_mean :: "farray \<Rightarrow> np_float" where
  \<comment> \<open>the sum of all elements of both columns divided by their number; of an empty array
      it is nan\<close>
  "np_mean d =
     (if d = [] then NaN
      else fdiv_count (foldl fadd (Val 0) (flatten d)) (2 * length d))"

definition np_sqrt :: "np_float \<Rightarrow> np_float" where
  "np_sqrt x = fsqrt x"

section \<open>The two comparators\<close>

definition calculate_rmse :: "farray \<Rightarrow> farray \<Rightarrow> py_error + np_float" where
  \<comment> \<open>main.py\<close>
  "calculate_rmse t1 t2 =
     (case np_sub t1 t2 of
        Inl e \<Rightarrow> Inl e
      | Inr d \<Rightarrow> Inr (np_sqrt (np_mean (np_square d))))"

definition BayesianOptimizer_calculate_rmse ::
  "farray \<Rightarrow> farray \<Rightarrow> py_error + np_float" where
  \<comment> \<open>\<open>BayesianOptimizer._calculate_rmse\<close> of optimizer.py\<close>
  "BayesianOptimizer_calculate_rmse trajectory1 trajectory2 =
     (let t1 = trajectory1; t2 = trajectory2;
          len1 = length t1; len2 = length t2
      in if len1 > len2 then
           (case row_last t2 of
              Inl e \<Rightarrow> Inl e
            | Inr p \<Rightarrow>
                (let padding = np_tile p (len1 - len2); t2 = np_vstack t2 padding
                 in case np_sub t1 t2 of
                      Inl e \<Rightarrow> Inl e
                    | Inr d \<Rightarrow> Inr (np_sqrt (np_mean (np_square d)))))
         else if len2 > len1 then
           (case row_last t1 of
              Inl e \<Rightarrow> Inl e
            | Inr p \<Rightarrow>
                (let padding = np_tile p (len2 - len1); t1 = np_vstack t1 padding
                 in case np_sub t1 t2 of
                      Inl e \<Rightarrow> Inl e
                    | Inr d \<Rightarrow> Inr (np_sqrt (np_mean (np_square d)))))
         else
           (case np_sub t1 t2 of
              Inl e \<Rightarrow> Inl e
            | Inr d \<Rightarrow> Inr (np_sqrt (np_mean (np_square d)))))"

subsection \<open>The comparator as the specification words it\<close>






section \<open>Python dictionaries and lists\<close>

text \<open>
  A \<open>dict\<close> keeps its keys in insertion order, and the order is read by
  \<open>list(best_params.values())\<close> and by the log line, so a dictionary is an association
  list: assigning to a key that is present keeps its place, a new key goes to the end.
\<close>

type_synonym 'v pydict = "(string \<times> 'v) list"

definition dict_get :: "'v pydict \<Rightarrow> string \<Rightarrow> 'v \<Rightarrow> 'v" where
  \<comment> \<open>\<open>d.get(k, default)\<close>\<close>
  "dict_get d k dflt = (case map_of d k of None \<Rightarrow> dflt | Some v \<Rightarrow> v)"

fun dict_set :: "'v pydict \<Rightarrow> string \<Rightarrow> 'v \<Rightarrow> 'v pydict" where
  \<comment> \<open>\<open>d[k] = v\<close>\<close>
  "dict_set [] k v = [(k, v)]"
| "dict_set ((k', v') # d) k v =
     (if k' = k then (k, v) # d else (k', v') # dict_set d k v)"

definition dict_index :: "'v pydict \<Rightarrow> string \<Rightarrow> py_error + 'v" where
  \<comment> \<open>\<open>d[k]\<close>\<close>
  "dict_index d k = (case map_of d k of None \<Rightarrow> Inl KeyError | Some v \<Rightarrow> Inr v)"

definition list_index :: "'a list \<Rightarrow> nat \<Rightarrow> py_error + 'a" where
  \<comment> \<open>\<open>xs[i]\<close> at an index that is not negative\<close>
  "list_index xs i = (if i < length xs then Inr (xs ! i) else Inl IndexError)"

definition dict_values :: "'v pydict \<Rightarrow> 'v list" where
  "dict_values d = map snd d"

definition py_range :: "int \<Rightarrow> int list" where
  \<comment> \<open>\<open>range(steps)\<close>: empty when \<open>steps \<le> 0\<close>\<close>
  "py_range n = map int [0..<nat n]"

section \<open>The simulator\<close>

text \<open>
  The rigid-body engine is a library outside the repository. The embedding takes it as a
  parameter: a record of the operations \<open>Simulator\<close> calls, over a type \<open>'w\<close> of engine
  worlds. \<open>space_new\<close> stands for the calls that create the space, the floor segment, the
  body and its circle shape and add them to the space, from the values collected in a
  \<open>scene\<close>. The engine's operations are functions of their arguments; what the engine does
  with values it refuses is not part of the embedding.
\<close>

record scene =
  gravity :: vec
  floor_a :: vec
  floor_b :: vec
  floor_radius :: real
  floor_friction :: real
  body_mass :: real
  body_moment :: real
  body_position :: vec
  shape_radius :: real
  shape_elasticity :: real
  shape_friction :: real

record 'w pymunk =
  moment_for_circle :: "real \<Rightarrow> real \<Rightarrow> real \<Rightarrow> real"
  space_new :: "scene \<Rightarrow> 'w"
  apply_impulse_at_local_point :: "vec \<Rightarrow> 'w \<Rightarrow> 'w"
  space_step :: "real \<Rightarrow> 'w \<Rightarrow> 'w"
  position :: "'w \<Rightarrow> vec"

definition Simulator_scene :: "'w pymunk \<Rightarrow> real pydict option \<Rightarrow> scene" where
  \<comment> \<open>the values \<open>Simulator.__init__\<close> hands to the engine\<close>
  "Simulator_scene P params_opt =
     (let params = (case params_opt of None \<Rightarrow> [] | Some d \<Rightarrow> d);
          mass = dict_get params ''mass'' 10;
          moment = moment_for_circle P mass 0 20
      in \<lparr> gravity = (0, - 1000),
           floor_a = (- 5000, 50), floor_b = (5000, 50), floor_radius = 5,
           floor_friction = 1,
           body_mass = mass, body_moment = moment, body_position = (0, 300),
           shape_radius = 20,
           shape_elasticity = dict_get params ''elasticity'' (95 / 100),
           shape_friction = dict_get params ''friction'' (7 / 10) \<rparr>)"

definition Simulator_init :: "'w pymunk \<Rightarrow> real pydict option \<Rightarrow> 'w" where
  "Simulator_init P params_opt = space_new P (Simulator_scene P params_opt)"

fun apply_scheduled :: "'w pymunk \<Rightarrow> int \<Rightarrow> (int \<times> vec) list \<Rightarrow> 'w \<Rightarrow> 'w" where
  \<comment> \<open>the inner loop over the schedule, at one value of \<open>step\<close>\<close>
  "apply_scheduled P step [] w = w"
| "apply_scheduled P step ((t_impulse, impulse_vector) # rest) w =
     apply_scheduled P step rest
       (if step = t_impulse then apply_impulse_at_local_point P impulse_vector w else w)"

fun run_steps ::
  "'w pymunk \<Rightarrow> int list \<Rightarrow> (int \<times> vec) list \<Rightarrow> 'w \<Rightarrow> trajectory \<Rightarrow> 'w \<times> trajectory" where
  \<comment> \<open>the outer loop over \<open>range(steps)\<close>\<close>
  "run_steps P [] impulses w trajectory = (w, trajectory)"
| "run_steps P (step # rest) impulses w trajectory =
     (let w1 = apply_scheduled P step impulses w;
          w2 = space_step P (1 / 60) w1
      in run_steps P rest impulses w2 (trajectory @ [position P w2]))"

definition run_simulation_for_trajectory ::
  "'w pymunk \<Rightarrow> 'w \<Rightarrow> int \<Rightarrow> (int \<times> vec) list \<Rightarrow> trajectory" where
  "run_simulation_for_trajectory P w steps impulses =
     snd (run_steps P (py_range steps) impulses w [])"

subsection \<open>The schedule as the specification words it\<close>

datatype event = Impulse vec | Advance

definition step_events :: "(int \<times> vec) list \<Rightarrow> int \<Rightarrow> event list" where
  \<comment> \<open>every impulse scheduled for exactly this step, in schedule order, then the advance\<close>
  "step_events impulses s =
     map (\<lambda>e. Impulse (snd e)) (filter (\<lambda>e. fst e = s) impulses) @ [Advance]"

definition schedule_events :: "int \<Rightarrow> (int \<times> vec) list \<Rightarrow> event list" where
  "schedule_events steps impulses = concat (map (step_events impulses) (py_range steps))"

fun replay :: "'w pymunk \<Rightarrow> event list \<Rightarrow> 'w \<Rightarrow> 'w \<times> trajectory" where
  \<comment> \<open>perform the events in order; record the position after each advance\<close>
  "replay P [] w = (w, [])"
| "replay P (Impulse v # es) w = replay P es (apply_impulse_at_local_point P v w)"
| "replay P (Advance # es) w =
     (let w' = space_step P (1 / 60) w; r = replay P es w'
      in (fst r, position P w' # snd r))"

definition world_after :: "'w pymunk \<Rightarrow> (int \<times> vec) list \<Rightarrow> 'w \<Rightarrow> nat \<Rightarrow> 'w" where
  \<comment> \<open>the world after the first \<open>n\<close> steps: at each, the scheduled impulses, then the advance\<close>
  "world_after P impulses w n =
     fold (\<lambda>s w. space_step P (1 / 60) (apply_scheduled P (int s) impulses w)) [0..<n] w"

subsection \<open>A contact-free engine for concrete runs\<close>

text \<open>
  A stand-in for the engine, used only to run the embedding on concrete inputs: one point
  mass under gravity, with no floor contact. A step moves the position by the velocity,
  then adds gravity to the velocity; an impulse at the centre adds impulse / mass to the
  velocity.
\<close>

record point_mass =
  pm_mass :: real
  pm_gravity :: vec
  pm_position :: vec
  pm_velocity :: vec

definition free_flight_new :: "scene \<Rightarrow> point_mass" where
  "free_flight_new s =
     \<lparr> pm_mass = body_mass s, pm_gravity = gravity s,
       pm_position = body_position s, pm_velocity = (0, 0) \<rparr>"

definition free_flight_impulse :: "vec \<Rightarrow> point_mass \<Rightarrow> point_mass" where
  "free_flight_impulse j w =
     w\<lparr> pm_velocity := (fst (pm_velocity w) + fst j / pm_mass w,
                         snd (pm_velocity w) + snd j / pm_mass w) \<rparr>"

definition free_flight_step :: "real \<Rightarrow> point_mass \<Rightarrow> point_mass" where
  "free_flight_step dt w =
     w\<lparr> pm_position := (fst (pm_position w) + fst (pm_velocity w) * dt,
                         snd (pm_position w) + snd (pm_velocity w) * dt),
        pm_velocity := (fst (pm_velocity w) + fst (pm_gravity w) * dt,
                        snd (pm_velocity w) + snd (pm_gravity w) * dt) \<rparr>"

definition circle_moment :: "real \<Rightarrow> real \<Rightarrow> real \<Rightarrow> real" where
  "circle_moment m r1 r2 = m * (r1 * r1 + r2 * r2) / 2"

definition free_flight :: "point_mass pymunk" where
  "free_flight =
     \<lparr> moment_for_circle = circle_moment,
       space_new = free_flight_new,
       apply_impulse_at_local_point = free_flight_impulse,
       space_step = free_flight_step,
       position = pm_position \<rparr>"


section \<open>The objective of main.py\<close>

text \<open>
  The module's globals \<open>call_count\<close> and \<open>current_stage\<close>, and the lines printed so far,
  are threaded through every function that touches them. A printed line is kept as its
  parts, before formatting.
\<close>

datatype log_line =
    GuessLine string int "real pydict" np_float
  | StageHeader string string
  | StageAComplete real real
  | StageBComplete real
  | RefinementComplete

record globals =
  call_count :: int
  current_stage :: string
  stdout :: "log_line list"

definition print :: "log_line \<Rightarrow> globals \<Rightarrow> globals" where
  "print l g = g\<lparr> stdout := stdout g @ [l] \<rparr>"

fun assign_free :: "real pydict \<Rightarrow> (nat \<times> string) list \<Rightarrow> real list \<Rightarrow> py_error + real pydict" where
  \<comment> \<open>the loop \<open>for i, name in enumerate(search_space_names): current_params[name] = params[i]\<close>\<close>
  "assign_free current_params [] params = Inr current_params"
| "assign_free current_params ((i, name) # rest) params =
     (case list_index params i of
        Inl e \<Rightarrow> Inl e
      | Inr v \<Rightarrow> assign_free (dict_set current_params name v) rest params)"

definition objective_function ::
  "'w pymunk \<Rightarrow> real list \<Rightarrow> string list \<Rightarrow> real pydict \<Rightarrow> trajectory \<Rightarrow> int \<Rightarrow>
   (int \<times> vec) list \<Rightarrow> globals \<Rightarrow> (py_error + np_float) \<times> globals" where
  "objective_function P params search_space_names fixed_params ground_truth_traj steps impulses g =
     (let g1 = g\<lparr> call_count := call_count g + 1 \<rparr>
      in case assign_free fixed_params (enumerate 0 search_space_names) params of
           Inl e \<Rightarrow> (Inl e, g1)
         | Inr current_params \<Rightarrow>
             (let simulator = Simulator_init P (Some current_params);
                  sim_trajectory = run_simulation_for_trajectory P simulator steps impulses
              in case calculate_rmse (as_floats ground_truth_traj) (as_floats sim_trajectory) of
                   Inl e \<Rightarrow> (Inl e, g1)
                 | Inr rmse \<Rightarrow>
                     (Inr rmse,
                      print (GuessLine (current_stage g1) (call_count g1) current_params rmse)
                        g1)))"

section \<open>The staged calibration of main.py\<close>

text \<open>
  \<open>gp_minimize\<close> belongs to a library outside the repository and is a parameter: a
  function from the arguments of a call and the globals before it to the best point
  \<open>result.x\<close> (or the exception that left the call) and the globals after it.
\<close>

type_synonym objective = "real list \<Rightarrow> globals \<Rightarrow> (py_error + np_float) \<times> globals"

record gp_args =
  func :: objective
  dimensions :: "(real \<times> real \<times> string) list"
  n_calls :: nat
  x0 :: "real list option"
  n_initial_points :: nat
  random_state :: nat

type_synonym optimizer = "gp_args \<Rightarrow> globals \<Rightarrow> (py_error + real list) \<times> globals"

definition GROUND_TRUTH_PARAMS :: "real pydict" where
  "GROUND_TRUTH_PARAMS = [(''friction'', 7 / 10), (''elasticity'', 9 / 10), (''mass'', 12)]"

definition EXP_A_IMPULSES :: "(int \<times> vec) list" where
  "EXP_A_IMPULSES = [(0, (0, 8000))]"

definition EXP_A_STEPS :: int where
  "EXP_A_STEPS = 300"

definition EXP_B_IMPULSES :: "(int \<times> vec) list" where
  "EXP_B_IMPULSES = [(0, (30000, 0))]"

definition EXP_B_STEPS :: int where
  "EXP_B_STEPS = 300"

definition EXP_C_IMPULSES :: "(int \<times> vec) list" where
  "EXP_C_IMPULSES = [(0, (8000, 8000)), (300, (25000, 0))]"

definition EXP_C_STEPS :: int where
  "EXP_C_STEPS = 500"

definition initial_guess :: "real pydict" where
  "initial_guess = [(''friction'', 1 / 2), (''elasticity'', 1 / 2), (''mass'', 15)]"

definition stage_a_args :: "'w pymunk \<Rightarrow> real \<Rightarrow> gp_args" where
  \<comment> \<open>the arguments of the first call of \<open>gp_minimize\<close>, given \<open>best_params['friction']\<close>\<close>
  "stage_a_args P friction =
     (let sim_a = Simulator_init P (Some GROUND_TRUTH_PARAMS);
          traj_a = run_simulation_for_trajectory P sim_a EXP_A_STEPS EXP_A_IMPULSES;
          search_space_a = [(1 / 10, 1, ''elasticity''), (5, 25, ''mass'')];
          obj_a = (\<lambda>params. objective_function P params [''elasticity'', ''mass'']
                     [(''friction'', friction)] traj_a EXP_A_STEPS EXP_A_IMPULSES)
      in \<lparr> func = obj_a, dimensions = search_space_a, n_calls = 50, x0 = None,
           n_initial_points = 25, random_state = 42 \<rparr>)"

definition stage_b_args :: "'w pymunk \<Rightarrow> real \<Rightarrow> real \<Rightarrow> gp_args" where
  \<comment> \<open>the second call, given \<open>best_params['elasticity']\<close> and \<open>best_params['mass']\<close>\<close>
  "stage_b_args P elasticity mass =
     (let sim_b = Simulator_init P (Some GROUND_TRUTH_PARAMS);
          traj_b = run_simulation_for_trajectory P sim_b EXP_B_STEPS EXP_B_IMPULSES;
          search_space_b = [(1 / 10, 1, ''friction'')];
          obj_b = (\<lambda>params. objective_function P params [''friction'']
                     [(''elasticity'', elasticity), (''mass'', mass)]
                     traj_b EXP_B_STEPS EXP_B_IMPULSES)
      in \<lparr> func = obj_b, dimensions = search_space_b, n_calls = 30, x0 = None,
           n_initial_points = 15, random_state = 42 \<rparr>)"

definition stage_c_args :: "'w pymunk \<Rightarrow> real list \<Rightarrow> gp_args" where
  \<comment> \<open>the third call, given \<open>list(best_params.values())\<close>\<close>
  "stage_c_args P warm_start =
     (let sim_c = Simulator_init P (Some GROUND_TRUTH_PARAMS);
          traj_c = run_simulation_for_trajectory P sim_c EXP_C_STEPS EXP_C_IMPULSES;
          search_space_c =
            [(1 / 10, 1, ''friction''), (1 / 10, 1, ''elasticity''), (5, 25, ''mass'')];
          obj_c = (\<lambda>params. objective_function P params [''friction'', ''elasticity'', ''mass'']
                     [] traj_c EXP_C_STEPS EXP_C_IMPULSES)
      in \<lparr> func = obj_c, dimensions = search_space_c, n_calls = 70,
           x0 = Some warm_start, n_initial_points = 35, random_state = 42 \<rparr>)"

definition enter_stage :: "string \<Rightarrow> string \<Rightarrow> globals \<Rightarrow> globals" where
  \<comment> \<open>the three statements that open every stage\<close>
  "enter_stage label title g =
     (let g = g\<lparr> current_stage := label \<rparr>;
          g = g\<lparr> call_count := 0 \<rparr>
      in print (StageHeader (current_stage g) title) g)"

definition stage_a ::
  "'w pymunk \<Rightarrow> optimizer \<Rightarrow> real pydict \<Rightarrow> globals \<Rightarrow> (py_error + real pydict) \<times> globals" where
  "stage_a P gp_minimize best_params g =
     (let g = enter_stage ''Stage A (Bounce)'' ''Isolating Elasticity and Mass'' g
      in case dict_index best_params ''friction'' of
           Inl e \<Rightarrow> (Inl e, g)
         | Inr friction \<Rightarrow>
      (case gp_minimize (stage_a_args P friction) g of
           (Inl e, g) \<Rightarrow> (Inl e, g)
         | (Inr result_a_x, g) \<Rightarrow>
      (case list_index result_a_x 0 of
           Inl e \<Rightarrow> (Inl e, g)
         | Inr x_0 \<Rightarrow>
      (let best_params = dict_set best_params ''elasticity'' x_0
       in case list_index result_a_x 1 of
           Inl e \<Rightarrow> (Inl e, g)
         | Inr x_1 \<Rightarrow>
      (let best_params = dict_set best_params ''mass'' x_1
       in case dict_index best_params ''elasticity'' of
           Inl e \<Rightarrow> (Inl e, g)
         | Inr e_found \<Rightarrow>
      (case dict_index best_params ''mass'' of
           Inl e \<Rightarrow> (Inl e, g)
         | Inr m_found \<Rightarrow>
             (Inr best_params, print (StageAComplete e_found m_found) g)))))))"

definition stage_b ::
  "'w pymunk \<Rightarrow> optimizer \<Rightarrow> real pydict \<Rightarrow> globals \<Rightarrow> (py_error + real pydict) \<times> globals" where
  "stage_b P gp_minimize best_params g =
     (let g = enter_stage ''Stage B (Slide)'' ''Isolating Friction'' g
      in case dict_index best_params ''elasticity'' of
           Inl e \<Rightarrow> (Inl e, g)
         | Inr elasticity \<Rightarrow>
      (case dict_index best_params ''mass'' of
           Inl e \<Rightarrow> (Inl e, g)
         | Inr mass \<Rightarrow>
      (case gp_minimize (stage_b_args P elasticity mass) g of
           (Inl e, g) \<Rightarrow> (Inl e, g)
         | (Inr result_b_x, g) \<Rightarrow>
      (case list_index result_b_x 0 of
           Inl e \<Rightarrow> (Inl e, g)
         | Inr x_0 \<Rightarrow>
      (let best_params = dict_set best_params ''friction'' x_0
       in case dict_index best_params ''friction'' of
           Inl e \<Rightarrow> (Inl e, g)
         | Inr f_found \<Rightarrow>
             (Inr best_params, print (StageBComplete f_found) g))))))"

definition stage_c ::
  "'w pymunk \<Rightarrow> optimizer \<Rightarrow> real pydict \<Rightarrow> globals \<Rightarrow> (py_error + real pydict) \<times> globals" where
  "stage_c P gp_minimize best_params g =
     (let g = enter_stage ''Stage C (Refine)'' ''Final Refinement of All Parameters'' g
      in case gp_minimize (stage_c_args P (dict_values best_params)) g of
           (Inl e, g) \<Rightarrow> (Inl e, g)
         | (Inr result_c_x, g) \<Rightarrow>
      (case list_index result_c_x 0 of
           Inl e \<Rightarrow> (Inl e, g)
         | Inr x_0 \<Rightarrow>
      (case list_index result_c_x 1 of
           Inl e \<Rightarrow> (Inl e, g)
         | Inr x_1 \<Rightarrow>
      (case list_index result_c_x 2 of
           Inl e \<Rightarrow> (Inl e, g)
         | Inr x_2 \<Rightarrow>
             (let final_params =
                    [(''friction'', x_0), (''elasticity'', x_1), (''mass'', x_2)]
              in (Inr final_params, print RefinementComplete g))))))"

definition run_staged_calibration ::
  "'w pymunk \<Rightarrow> optimizer \<Rightarrow> globals \<Rightarrow> (py_error + real pydict) \<times> globals" where
  \<comment> \<open>the three stages of the function body, in the order of the source, up to
      \<open>final_params\<close>; the table and the plot that follow only read it\<close>
  "run_staged_calibration P gp_minimize g =
     (let best_params = initial_guess
      in case stage_a P gp_minimize best_params g of
           (Inl e, g) \<Rightarrow> (Inl e, g)
         | (Inr best_params, g) \<Rightarrow>
             (case stage_b P gp_minimize best_params g of
                (Inl e, g) \<Rightarrow> (Inl e, g)
              | (Inr best_params, g) \<Rightarrow> stage_c P gp_minimize best_params g))"


subsection \<open>An optimizer and a starting state for concrete runs\<close>

text \<open>
  A stand-in for the optimizer, used only to run the embedding on concrete inputs: it
  returns the midpoint of every dimension without evaluating the objective.
\<close>

definition midpoint_minimize :: optimizer where
  "midpoint_minimize args g =
     (Inr (map (\<lambda>d. (fst d + fst (snd d)) / 2) (dimensions args)), g)"

definition g_start :: globals where
  \<comment> \<open>the globals as the module sets them at import\<close>
  "g_start = \<lparr> call_count = 0, current_stage = [], stdout = [] \<rparr>"

section \<open>Rounding\<close>

lemma overflow_threshold_pos: "0 < overflow_threshold"
  by (simp add: overflow_threshold_def)

lemma round_half_even_of_int: "round_half_even (of_int k) = k"
  by (simp add: round_half_even_def)

lemma round_half_even_zero: "round_half_even 0 = 0"
  using round_half_even_of_int [of 0] by simp



lemma round_magnitude_zero: "round_magnitude 0 = 0"
  by (simp add: round_magnitude_def round_half_even_zero)

lemma fl_zero: "fl 0 = Val 0"
  using overflow_threshold_pos by (simp add: fl_def round_magnitude_zero)









section \<open>The comparators: padding, metric properties, agreement\<close>

lemma fsub_self: "fsub (Val x) (Val x) = Val 0"
  by (simp add: fsub_def fl_zero)






































text \<open>
  Claim C10. On trajectories of equal length the comparator of the top-level script and the
  comparator of the optimizer module return the same result.
\<close>

theorem comparators_agree_on_equal_length:
  "length a = length b \<Longrightarrow> calculate_rmse a b = BayesianOptimizer_calculate_rmse a b"
  by (simp add: calculate_rmse_def BayesianOptimizer_calculate_rmse_def Let_def)

theorem comparators_agree_on_equal_length_witness:
  "length [(Val 0, Val 0), (Val 1, Val 2)] = length [(Val 3, Val 4), (Val 5, Val 6)] \<and>
   calculate_rmse [(Val 0, Val 0), (Val 1, Val 2)] [(Val 3, Val 4), (Val 5, Val 6)] =
     BayesianOptimizer_calculate_rmse [(Val 0, Val 0), (Val 1, Val 2)]
       [(Val 3, Val 4), (Val 5, Val 6)]"
  using comparators_agree_on_equal_length
    [of "[(Val 0, Val 0), (Val 1, Val 2)]" "[(Val 3, Val 4), (Val 5, Val 6)]"]
  by simp

section \<open>The simulation loop\<close>

lemma apply_scheduled_replay:
  "replay P (map (\<lambda>e. Impulse (snd e)) (filter (\<lambda>e. fst e = s) impulses) @ es) w =
     replay P es (apply_scheduled P s impulses w)"
proof (induction impulses arbitrary: w)
  case Nil
  then show ?case by simp
next
  case (Cons e impulses)
  obtain t v where e: "e = (t, v)" by (cases e)
  show ?case using Cons.IH by (auto simp: e)
qed

lemma run_steps_acc:
  "run_steps P ss impulses w (acc @ tr) =
     (fst (run_steps P ss impulses w tr), acc @ snd (run_steps P ss impulses w tr))"
proof (induction ss arbitrary: w tr)
  case Nil
  then show ?case by simp
next
  case (Cons s ss)
  show ?case using Cons.IH [of _ "tr @ [x]" for x] by (simp add: Let_def)
qed

lemma run_steps_replay:
  "run_steps P ss impulses w [] = replay P (concat (map (step_events impulses) ss)) w"
proof (induction ss arbitrary: w)
  case Nil
  then show ?case by simp
next
  case (Cons s ss)
  let ?w2 = "space_step P (1 / 60) (apply_scheduled P s impulses w)"
  have "run_steps P (s # ss) impulses w [] = run_steps P ss impulses ?w2 ([position P ?w2] @ [])"
    by (simp add: Let_def)
  also have "\<dots> = (fst (run_steps P ss impulses ?w2 []),
                     [position P ?w2] @ snd (run_steps P ss impulses ?w2 []))"
    by (rule run_steps_acc)
  also have "\<dots> = replay P (Advance # concat (map (step_events impulses) ss))
                     (apply_scheduled P s impulses w)"
    by (simp add: Cons.IH Let_def)
  also have "\<dots> = replay P (concat (map (step_events impulses) (s # ss))) w"
    using apply_scheduled_replay [of P s impulses "Advance # concat (map (step_events impulses) ss)" w]
    by (simp add: step_events_def)
  finally show ?case .
qed

lemma run_simulation_replay:
  "run_simulation_for_trajectory P w steps impulses =
     snd (replay P (schedule_events steps impulses) w)"
  by (simp add: run_simulation_for_trajectory_def schedule_events_def run_steps_replay)

lemma count_step_events_impulse:
  "count_list (step_events impulses s) (Impulse v) =
     length (filter (\<lambda>e. snd e = v \<and> fst e = s) impulses)"
  by (induction impulses) (auto simp: step_events_def)

lemma count_step_events_advance: "count_list (step_events impulses s) Advance = 1"
  by (induction impulses) (auto simp: step_events_def)

lemma count_concat:
  "count_list (concat xss) x = sum_list (map (\<lambda>xs. count_list xs x) xss)"
  by (induction xss) simp_all

lemma indicator_over_range:
  "sum_list (map (\<lambda>s. if t = s then 1 else 0) (map int [0..<n])) =
     (if 0 \<le> t \<and> t < int n then 1 else (0 :: nat))"
  by (induction n) auto

lemma sum_filter_over_range:
  "sum_list (map (\<lambda>s. length (filter (\<lambda>e. snd e = v \<and> fst e = s) impulses)) (py_range steps))
     = length (filter (\<lambda>e. snd e = v \<and> 0 \<le> fst e \<and> fst e < steps) impulses)"
proof (induction impulses)
  case Nil
  then show ?case by (simp add: py_range_def)
next
  case (Cons e impulses)
  have one: "sum_list (map (\<lambda>s. if fst e = s then 1 else 0) (py_range steps)) =
               (if 0 \<le> fst e \<and> fst e < steps then 1 else (0 :: nat))"
    using indicator_over_range [of "fst e" "nat steps"] by (auto simp: py_range_def)
  show ?case
  proof (cases "snd e = v")
    case True
    have "\<And>s. length (filter (\<lambda>e. snd e = v \<and> fst e = s) (e # impulses)) =
        (if fst e = s then 1 else 0) + length (filter (\<lambda>e. snd e = v \<and> fst e = s) impulses)"
      using True by simp
    then have "sum_list (map (\<lambda>s. length (filter (\<lambda>e. snd e = v \<and> fst e = s) (e # impulses))) (py_range steps))
       = sum_list (map (\<lambda>s. if fst e = s then 1 else 0) (py_range steps)) +
         sum_list (map (\<lambda>s. length (filter (\<lambda>e. snd e = v \<and> fst e = s) impulses)) (py_range steps))"
      by (simp add: sum_list_addf)
    then show ?thesis using Cons.IH one True by simp
  next
    case False
    then show ?thesis using Cons.IH by simp
  qed
qed

lemma count_schedule_impulse:
  "count_list (schedule_events steps impulses) (Impulse v) =
     length (filter (\<lambda>e. snd e = v \<and> 0 \<le> fst e \<and> fst e < steps) impulses)"
  by (simp add: schedule_events_def count_concat comp_def count_step_events_impulse
      sum_filter_over_range)

lemma count_schedule_advance:
  "count_list (schedule_events steps impulses) Advance = nat steps"
  by (simp add: schedule_events_def count_concat comp_def count_step_events_advance
      py_range_def sum_list_triv)

lemma schedule_events_cong:
  assumes "\<forall>s. filter (\<lambda>e. fst e = s) impulses' = filter (\<lambda>e. fst e = s) impulses"
  shows "schedule_events steps impulses' = schedule_events steps impulses"
proof -
  have "step_events impulses' = step_events impulses"
    using assms by (intro ext) (simp add: step_events_def)
  then show ?thesis by (simp add: schedule_events_def)
qed

lemma world_after_Suc:
  "world_after P impulses w (Suc n) =
     space_step P (1 / 60) (apply_scheduled P (int n) impulses (world_after P impulses w n))"
  by (simp add: world_after_def)

lemma run_steps_positions:
  "run_steps P (map int [k..<k + n]) impulses (world_after P impulses w k) [] =
     (world_after P impulses w (k + n),
      map (\<lambda>i. position P (world_after P impulses w (Suc i))) [k..<k + n])"
proof (induction n arbitrary: k)
  case 0
  then show ?case by simp
next
  case (Suc n)
  let ?w2 = "world_after P impulses w (Suc k)"
  have r: "[k..<k + Suc n] = k # [Suc k..<Suc k + n]"
    by (simp add: upt_conv_Cons)
  have "run_steps P (map int [k..<k + Suc n]) impulses (world_after P impulses w k) [] =
          run_steps P (map int [Suc k..<Suc k + n]) impulses ?w2 ([position P ?w2] @ [])"
    unfolding r by (simp add: Let_def world_after_Suc del: upt_Suc)
  also have "\<dots> = (fst (run_steps P (map int [Suc k..<Suc k + n]) impulses ?w2 []),
      [position P ?w2] @ snd (run_steps P (map int [Suc k..<Suc k + n]) impulses ?w2 []))"
    by (rule run_steps_acc)
  also have "\<dots> = (world_after P impulses w (k + Suc n),
      map (\<lambda>i. position P (world_after P impulses w (Suc i))) [k..<k + Suc n])"
    unfolding r using Suc.IH [of "Suc k"] by (simp del: upt_Suc)
  finally show ?case .
qed

lemma run_simulation_positions:
  "run_simulation_for_trajectory P w steps impulses =
     map (\<lambda>i. position P (world_after P impulses w (Suc i))) [0..<nat steps]"
proof -
  have w0: "world_after P impulses w 0 = w" by (simp add: world_after_def)
  show ?thesis
    using run_steps_positions [of P 0 "nat steps" impulses w]
    by (simp add: run_simulation_for_trajectory_def py_range_def w0)
qed


text \<open>
  Claim C5. The trajectory the two loops return is the one obtained by performing, for each
  step index of \<open>range(steps)\<close> in order, every impulse scheduled for exactly that index
  (in schedule order, at the body's centre) and then the step's advance. In that sequence
  of engine calls an impulse vector occurs once for each schedule entry that carries it
  with \<open>0 \<le> s < steps\<close>, so each such entry is applied exactly once, entries that
  share a step index all apply, and entries outside the range never do; the advance occurs
  \<open>steps\<close> times. A schedule that lists the same entries in another order, keeping the
  order among entries of equal step index, yields the same trajectory.
\<close>

theorem impulses_applied_as_scheduled:
  "run_simulation_for_trajectory P w steps impulses =
     snd (replay P (schedule_events steps impulses) w)
   \<and> schedule_events steps impulses =
       concat (map (\<lambda>s. map (\<lambda>e. Impulse (snd e)) (filter (\<lambda>e. fst e = s) impulses) @ [Advance])
                (py_range steps))
   \<and> count_list (schedule_events steps impulses) (Impulse v) =
       length (filter (\<lambda>e. snd e = v \<and> 0 \<le> fst e \<and> fst e < steps) impulses)
   \<and> count_list (schedule_events steps impulses) Advance = nat steps
   \<and> ((\<forall>s. filter (\<lambda>e. fst e = s) impulses' = filter (\<lambda>e. fst e = s) impulses) \<longrightarrow>
        run_simulation_for_trajectory P w steps impulses' =
        run_simulation_for_trajectory P w steps impulses)"
proof (intro conjI impI)
  show "run_simulation_for_trajectory P w steps impulses =
     snd (replay P (schedule_events steps impulses) w)"
    by (rule run_simulation_replay)
  show "schedule_events steps impulses =
       concat (map (\<lambda>s. map (\<lambda>e. Impulse (snd e)) (filter (\<lambda>e. fst e = s) impulses) @ [Advance])
                (py_range steps))"
    by (simp add: schedule_events_def step_events_def [abs_def])
  show "count_list (schedule_events steps impulses) (Impulse v) =
       length (filter (\<lambda>e. snd e = v \<and> 0 \<le> fst e \<and> fst e < steps) impulses)"
    by (rule count_schedule_impulse)
  show "count_list (schedule_events steps impulses) Advance = nat steps"
    by (rule count_schedule_advance)
next
  assume "\<forall>s. filter (\<lambda>e. fst e = s) impulses' = filter (\<lambda>e. fst e = s) impulses"
  then have "schedule_events steps impulses' = schedule_events steps impulses"
    by (rule schedule_events_cong)
  then show "run_simulation_for_trajectory P w steps impulses' =
        run_simulation_for_trajectory P w steps impulses"
    by (simp add: run_simulation_replay)
qed

theorem impulses_applied_as_scheduled_witness:
  "(\<forall>s. filter (\<lambda>e. fst e = s) [(1 :: int, (0 :: real, 5 :: real)), (0, (3, 0))] =
        filter (\<lambda>e. fst e = s) [(0, (3, 0)), (1, (0, 5))])
   \<and> run_simulation_for_trajectory free_flight (Simulator_init free_flight None) 2
        [(1, (0, 5)), (0, (3, 0))] =
      run_simulation_for_trajectory free_flight (Simulator_init free_flight None) 2
        [(0, (3, 0)), (1, (0, 5))]
   \<and> count_list (schedule_events 2 [(0, (3, 0)), (1, (0, 5))]) (Impulse (3, 0)) = 1"
proof -
  have h: "\<forall>s. filter (\<lambda>e. fst e = s) [(1 :: int, (0 :: real, 5 :: real)), (0, (3, 0))] =
        filter (\<lambda>e. fst e = s) [(0, (3, 0)), (1, (0, 5))]"
    by auto
  note t = impulses_applied_as_scheduled
    [of free_flight "Simulator_init free_flight None" 2 "[(0, (3, 0)), (1, (0, 5))]" "(3, 0)"
        "[(1, (0, 5)), (0, (3, 0))]"]
  from t h have r: "run_simulation_for_trajectory free_flight (Simulator_init free_flight None) 2
        [(1, (0, 5)), (0, (3, 0))] =
      run_simulation_for_trajectory free_flight (Simulator_init free_flight None) 2
        [(0, (3, 0)), (1, (0, 5))]"
    by blast
  from t have "count_list (schedule_events 2 [(0, (3, 0)), (1, (0, 5))]) (Impulse (3, 0)) =
      length (filter (\<lambda>e. snd e = (3, 0) \<and> 0 \<le> fst e \<and> fst e < 2)
                [(0 :: int, (3 :: real, 0 :: real)), (1, (0, 5))])"
    by blast
  then have c: "count_list (schedule_events 2 [(0, (3, 0)), (1, (0, 5))]) (Impulse (3, 0)) = 1"
    by simp
  from h r c show ?thesis by blast
qed

text \<open>
  Claim C6. The returned trajectory has exactly \<open>steps\<close> entries; entry \<open>i\<close> is the body's
  position in the world after the advance of step \<open>i\<close>, so the entries are in step order
  and the first one is recorded after the first advance.
\<close>

theorem trajectory_one_entry_per_step:
  "run_simulation_for_trajectory P w steps impulses =
     map (\<lambda>i. position P (world_after P impulses w (Suc i))) [0..<nat steps]
   \<and> length (run_simulation_for_trajectory P w steps impulses) = nat steps"
  by (simp add: run_simulation_positions)

text \<open>
  Claim C9. The constructor takes mass, elasticity and friction from the mapping when the
  key is present, unchanged, and otherwise uses 10.0, 0.95 and 0.7; these are the values
  given to the body and its shape.
\<close>

theorem simulator_parameter_defaults:
  "body_mass (Simulator_scene P (Some params)) =
     (case map_of params ''mass'' of None \<Rightarrow> 10 | Some v \<Rightarrow> v)
   \<and> shape_elasticity (Simulator_scene P (Some params)) =
     (case map_of params ''elasticity'' of None \<Rightarrow> 95 / 100 | Some v \<Rightarrow> v)
   \<and> shape_friction (Simulator_scene P (Some params)) =
     (case map_of params ''friction'' of None \<Rightarrow> 7 / 10 | Some v \<Rightarrow> v)
   \<and> body_mass (Simulator_scene P None) = 10
   \<and> shape_elasticity (Simulator_scene P None) = 95 / 100
   \<and> shape_friction (Simulator_scene P None) = 7 / 10
   \<and> Simulator_init P (Some params) = space_new P (Simulator_scene P (Some params))"
  by (simp add: Simulator_scene_def Simulator_init_def dict_get_def Let_def
      split: option.splits)

section \<open>The objective\<close>

text \<open>
  Claim C8. The value the objective returns is the same whatever the globals are when it
  is called, so two calls with the same arguments return the same value. What a call
  leaves behind is the counter raised by one and, when a value is returned, one more
  printed line; the stage label is not touched.
\<close>

theorem objective_value_ignores_globals:
  "fst (objective_function P params names fixed gt steps impulses g) =
     fst (objective_function P params names fixed gt steps impulses g')
   \<and> call_count (snd (objective_function P params names fixed gt steps impulses g)) =
       call_count g + 1
   \<and> current_stage (snd (objective_function P params names fixed gt steps impulses g)) =
       current_stage g
   \<and> stdout (snd (objective_function P params names fixed gt steps impulses g)) =
       stdout g @
       (case (assign_free fixed (enumerate 0 names) params,
              fst (objective_function P params names fixed gt steps impulses g)) of
          (Inr current_params, Inr rmse) \<Rightarrow>
            [GuessLine (current_stage g) (call_count g + 1) current_params rmse]
        | _ \<Rightarrow> [])"
  by (simp add: objective_function_def Let_def print_def split: sum.splits)

lemma assign_free_short:
  "k \<le> length params \<Longrightarrow> length params < k + length names \<Longrightarrow>
     assign_free cp (enumerate k names) params = Inl IndexError"
proof (induction names arbitrary: k cp)
  case Nil
  then show ?case by simp
next
  case (Cons n names)
  show ?case
  proof (cases "k < length params")
    case True
    then show ?thesis using Cons.prems Cons.IH [of "Suc k"] by (simp add: list_index_def)
  next
    case False
    then show ?thesis by (simp add: list_index_def)
  qed
qed

lemma assign_free_take:
  "k + length names \<le> m \<Longrightarrow>
     assign_free cp (enumerate k names) (take m params) =
     assign_free cp (enumerate k names) params"
proof (induction names arbitrary: k cp)
  case Nil
  then show ?case by simp
next
  case (Cons n names)
  then show ?case by (auto simp: list_index_def)
qed

text \<open>
  Claim C4, as the code has it. With fewer free values than names the evaluation stops
  with IndexError and returns no RMSE. With at least as many values as names it is the
  evaluation on the first \<open>len(names)\<close> values: values beyond them are never read.
\<close>

theorem objective_free_value_count:
  "(length params < length names \<longrightarrow>
      fst (objective_function P params names fixed gt steps impulses g) = Inl IndexError)
   \<and> (length names \<le> length params \<longrightarrow>
      objective_function P params names fixed gt steps impulses g =
      objective_function P (take (length names) params) names fixed gt steps impulses g)"
proof (intro conjI impI)
  assume "length params < length names"
  then have "assign_free fixed (enumerate 0 names) params = Inl IndexError"
    using assign_free_short [of 0 params names fixed] by simp
  then show "fst (objective_function P params names fixed gt steps impulses g) = Inl IndexError"
    by (simp add: objective_function_def)
next
  assume "length names \<le> length params"
  have "assign_free fixed (enumerate 0 names) (take (length names) params) =
        assign_free fixed (enumerate 0 names) params"
    by (rule assign_free_take) simp
  then show "objective_function P params names fixed gt steps impulses g =
      objective_function P (take (length names) params) names fixed gt steps impulses g"
    by (simp add: objective_function_def)
qed

lemma free_flight_one_step:
  "run_simulation_for_trajectory free_flight (Simulator_init free_flight (Some ps)) 1 [] =
     [(0, 300)]"
  by (simp add: run_simulation_for_trajectory_def py_range_def Simulator_init_def
      Simulator_scene_def free_flight_def free_flight_new_def free_flight_step_def Let_def)

text \<open>
  Claim C4 as stated fails: with one name and two values the counts differ, and the
  evaluation returns an RMSE and prints its line.
\<close>

theorem objective_surplus_value_counterexample:
  "length [1 / 2 :: real, 9 / 10] \<noteq> length [''friction''] \<and>
   objective_function free_flight [1 / 2, 9 / 10] [''friction''] [] [(0, 300)] 1 [] g_start =
     (Inr (Val 0),
      \<lparr> call_count = 1, current_stage = [],
        stdout = [GuessLine [] 1 [(''friction'', 1 / 2)] (Val 0)] \<rparr>)"
  by (simp add: objective_function_def free_flight_one_step list_index_def enumerate_eq_zip
      as_floats_def calculate_rmse_def np_sub_def np_square_def np_mean_def np_sqrt_def
      flatten_def vsub_def fsub_self fl_zero print_def g_start_def)

theorem objective_free_value_count_witness:
  "length ([] :: real list) < length [''friction''] \<and>
   fst (objective_function free_flight [] [''friction''] [] [(0, 300)] 1 [] g_start) =
     Inl IndexError \<and>
   length [''friction''] \<le> length [1 / 2 :: real, 9 / 10] \<and>
   objective_function free_flight [1 / 2, 9 / 10] [''friction''] [] [(0, 300)] 1 [] g_start =
   objective_function free_flight [1 / 2] [''friction''] [] [(0, 300)] 1 [] g_start"
proof -
  have a: "length ([] :: real list) < length [''friction'']" by simp
  have b: "length [''friction''] \<le> length [1 / 2 :: real, 9 / 10]" by simp
  have t: "take (length [''friction'']) [1 / 2 :: real, 9 / 10] = [1 / 2]" by simp
  from objective_free_value_count
    [of "[]" "[''friction'']" free_flight "[]" "[(0, 300)]" 1 "[]" g_start] a
  have 1: "fst (objective_function free_flight [] [''friction''] [] [(0, 300)] 1 [] g_start) =
     Inl IndexError" by blast
  from objective_free_value_count
    [of "[1 / 2, 9 / 10]" "[''friction'']" free_flight "[]" "[(0, 300)]" 1 "[]" g_start] b
  have "objective_function free_flight [1 / 2, 9 / 10] [''friction''] [] [(0, 300)] 1 [] g_start =
   objective_function free_flight (take (length [''friction'']) [1 / 2, 9 / 10]) [''friction'']
     [] [(0, 300)] 1 [] g_start" by blast
  then have 2: "objective_function free_flight [1 / 2, 9 / 10] [''friction''] [] [(0, 300)] 1 [] g_start =
   objective_function free_flight [1 / 2] [''friction''] [] [(0, 300)] 1 [] g_start"
    unfolding t .
  from a b 1 2 show ?thesis by blast
qed

section \<open>The staged calibration\<close>

lemma stage_a_run:
  assumes "gp_minimize (stage_a_args P (1 / 2))
             (enter_stage ''Stage A (Bounce)'' ''Isolating Elasticity and Mass'' g0) = (Inr xa, g1)"
    and "length xa = 2"
  shows "stage_a P gp_minimize initial_guess g0 =
           (Inr [(''friction'', 1 / 2), (''elasticity'', xa ! 0), (''mass'', xa ! 1)],
            print (StageAComplete (xa ! 0) (xa ! 1)) g1)"
  using assms
  by (simp add: stage_a_def initial_guess_def dict_index_def list_index_def Let_def)

lemma stage_b_run:
  assumes "gp_minimize (stage_b_args P e m)
             (enter_stage ''Stage B (Slide)'' ''Isolating Friction'' g1) = (Inr xb, g2)"
    and "length xb = 1"
  shows "stage_b P gp_minimize [(''friction'', f), (''elasticity'', e), (''mass'', m)] g1 =
           (Inr [(''friction'', xb ! 0), (''elasticity'', e), (''mass'', m)],
            print (StageBComplete (xb ! 0)) g2)"
  using assms
  by (simp add: stage_b_def dict_index_def list_index_def Let_def)

lemma stage_c_run:
  assumes "gp_minimize (stage_c_args P [f, e, m])
             (enter_stage ''Stage C (Refine)'' ''Final Refinement of All Parameters'' g2) =
             (Inr xc, g3)"
    and "length xc = 3"
  shows "stage_c P gp_minimize [(''friction'', f), (''elasticity'', e), (''mass'', m)] g2 =
           (Inr [(''friction'', xc ! 0), (''elasticity'', xc ! 1), (''mass'', xc ! 2)],
            print RefinementComplete g3)"
  using assms
  by (simp add: stage_c_def dict_values_def list_index_def Let_def)

text \<open>
  Claim C2. When the optimizer returns a point of the stage's dimension at each call, the
  calibration is three calls in sequence, each starting from the globals the one before
  left. The first searches elasticity and mass with friction fixed to the initial guess
  0.5; the second searches friction with elasticity and mass fixed to the first call's best
  point; the third searches all three with nothing fixed, warm-started from friction of
  the second call and elasticity and mass of the first. The result is the third call's
  best point under the names friction, elasticity, mass in that order.
\<close>

theorem staged_calibration_order:
  assumes A: "gp_minimize (stage_a_args P (1 / 2))
             (enter_stage ''Stage A (Bounce)'' ''Isolating Elasticity and Mass'' g0) = (Inr xa, g1)"
    and la: "length xa = 2"
    and B: "gp_minimize (stage_b_args P (xa ! 0) (xa ! 1))
             (enter_stage ''Stage B (Slide)'' ''Isolating Friction''
                (print (StageAComplete (xa ! 0) (xa ! 1)) g1)) = (Inr xb, g2)"
    and lb: "length xb = 1"
    and C: "gp_minimize (stage_c_args P [xb ! 0, xa ! 0, xa ! 1])
             (enter_stage ''Stage C (Refine)'' ''Final Refinement of All Parameters''
                (print (StageBComplete (xb ! 0)) g2)) = (Inr xc, g3)"
    and lc: "length xc = 3"
  shows "run_staged_calibration P gp_minimize g0 =
           (Inr [(''friction'', xc ! 0), (''elasticity'', xc ! 1), (''mass'', xc ! 2)],
            print RefinementComplete g3)
    \<and> func (stage_a_args P (1 / 2)) =
        (\<lambda>params. objective_function P params [''elasticity'', ''mass''] [(''friction'', 1 / 2)]
           (run_simulation_for_trajectory P (Simulator_init P (Some GROUND_TRUTH_PARAMS))
              EXP_A_STEPS EXP_A_IMPULSES) EXP_A_STEPS EXP_A_IMPULSES)
    \<and> func (stage_b_args P (xa ! 0) (xa ! 1)) =
        (\<lambda>params. objective_function P params [''friction'']
           [(''elasticity'', xa ! 0), (''mass'', xa ! 1)]
           (run_simulation_for_trajectory P (Simulator_init P (Some GROUND_TRUTH_PARAMS))
              EXP_B_STEPS EXP_B_IMPULSES) EXP_B_STEPS EXP_B_IMPULSES)
    \<and> func (stage_c_args P [xb ! 0, xa ! 0, xa ! 1]) =
        (\<lambda>params. objective_function P params [''friction'', ''elasticity'', ''mass''] []
           (run_simulation_for_trajectory P (Simulator_init P (Some GROUND_TRUTH_PARAMS))
              EXP_C_STEPS EXP_C_IMPULSES) EXP_C_STEPS EXP_C_IMPULSES)
    \<and> x0 (stage_a_args P (1 / 2)) = None
    \<and> x0 (stage_b_args P (xa ! 0) (xa ! 1)) = None
    \<and> x0 (stage_c_args P [xb ! 0, xa ! 0, xa ! 1]) = Some [xb ! 0, xa ! 0, xa ! 1]"
proof -
  have a: "stage_a P gp_minimize initial_guess g0 =
           (Inr [(''friction'', 1 / 2), (''elasticity'', xa ! 0), (''mass'', xa ! 1)],
            print (StageAComplete (xa ! 0) (xa ! 1)) g1)"
    by (rule stage_a_run [where gp_minimize = gp_minimize, OF A la])
  have b: "stage_b P gp_minimize [(''friction'', 1 / 2), (''elasticity'', xa ! 0), (''mass'', xa ! 1)]
             (print (StageAComplete (xa ! 0) (xa ! 1)) g1) =
           (Inr [(''friction'', xb ! 0), (''elasticity'', xa ! 0), (''mass'', xa ! 1)],
            print (StageBComplete (xb ! 0)) g2)"
    by (rule stage_b_run [where gp_minimize = gp_minimize, OF B lb])
  have c: "stage_c P gp_minimize [(''friction'', xb ! 0), (''elasticity'', xa ! 0), (''mass'', xa ! 1)]
             (print (StageBComplete (xb ! 0)) g2) =
           (Inr [(''friction'', xc ! 0), (''elasticity'', xc ! 1), (''mass'', xc ! 2)],
            print RefinementComplete g3)"
    by (rule stage_c_run [where gp_minimize = gp_minimize, OF C lc])
  have r: "run_staged_calibration P gp_minimize g0 =
           (Inr [(''friction'', xc ! 0), (''elasticity'', xc ! 1), (''mass'', xc ! 2)],
            print RefinementComplete g3)"
    by (simp only: run_staged_calibration_def Let_def a b c prod.case sum.case)
  have args: "func (stage_a_args P f) =
        (\<lambda>params. objective_function P params [''elasticity'', ''mass''] [(''friction'', f)]
           (run_simulation_for_trajectory P (Simulator_init P (Some GROUND_TRUTH_PARAMS))
              EXP_A_STEPS EXP_A_IMPULSES) EXP_A_STEPS EXP_A_IMPULSES)"
    "func (stage_b_args P e m) =
        (\<lambda>params. objective_function P params [''friction'']
           [(''elasticity'', e), (''mass'', m)]
           (run_simulation_for_trajectory P (Simulator_init P (Some GROUND_TRUTH_PARAMS))
              EXP_B_STEPS EXP_B_IMPULSES) EXP_B_STEPS EXP_B_IMPULSES)"
    "func (stage_c_args P ws) =
        (\<lambda>params. objective_function P params [''friction'', ''elasticity'', ''mass''] []
           (run_simulation_for_trajectory P (Simulator_init P (Some GROUND_TRUTH_PARAMS))
              EXP_C_STEPS EXP_C_IMPULSES) EXP_C_STEPS EXP_C_IMPULSES)"
    "x0 (stage_a_args P f) = None" "x0 (stage_b_args P e m) = None"
    "x0 (stage_c_args P ws) = Some ws" for f e m ws
    by (simp_all add: stage_a_args_def stage_b_args_def stage_c_args_def Let_def)
  show ?thesis
    by (intro conjI) (rule r args)+
qed

lemma midpoint_a:
  "midpoint_minimize (stage_a_args P f) g = (Inr [11 / 20, 15], g)"
  by (simp add: midpoint_minimize_def stage_a_args_def Let_def)

lemma midpoint_b:
  "midpoint_minimize (stage_b_args P e m) g = (Inr [11 / 20], g)"
  by (simp add: midpoint_minimize_def stage_b_args_def Let_def)

lemma midpoint_c:
  "midpoint_minimize (stage_c_args P ws) g = (Inr [11 / 20, 11 / 20, 15], g)"
  by (simp add: midpoint_minimize_def stage_c_args_def Let_def)

theorem staged_calibration_order_witness:
  "run_staged_calibration free_flight midpoint_minimize g_start =
     (Inr [(''friction'', 11 / 20), (''elasticity'', 11 / 20), (''mass'', 15)],
      \<lparr> call_count = 0, current_stage = ''Stage C (Refine)'',
        stdout = [StageHeader ''Stage A (Bounce)'' ''Isolating Elasticity and Mass'',
                  StageAComplete (11 / 20) 15,
                  StageHeader ''Stage B (Slide)'' ''Isolating Friction'',
                  StageBComplete (11 / 20),
                  StageHeader ''Stage C (Refine)'' ''Final Refinement of All Parameters'',
                  RefinementComplete] \<rparr>)"
proof -
  let ?g1 = "enter_stage ''Stage A (Bounce)'' ''Isolating Elasticity and Mass'' g_start"
  let ?g2 = "enter_stage ''Stage B (Slide)'' ''Isolating Friction''
                (print (StageAComplete (11 / 20) 15) ?g1)"
  let ?g3 = "enter_stage ''Stage C (Refine)'' ''Final Refinement of All Parameters''
                (print (StageBComplete (11 / 20)) ?g2)"
  have A: "midpoint_minimize (stage_a_args free_flight (1 / 2))
             (enter_stage ''Stage A (Bounce)'' ''Isolating Elasticity and Mass'' g_start) =
             (Inr [11 / 20, 15], ?g1)"
    by (rule midpoint_a)
  have la: "length [11 / 20 :: real, 15] = 2" by simp
  have B: "midpoint_minimize (stage_b_args free_flight ([11 / 20, 15] ! 0) ([11 / 20, 15] ! 1))
             (enter_stage ''Stage B (Slide)'' ''Isolating Friction''
                (print (StageAComplete ([11 / 20, 15] ! 0) ([11 / 20, 15] ! 1)) ?g1)) =
             (Inr [11 / 20], ?g2)"
    by (simp add: midpoint_b)
  have lb: "length [11 / 20 :: real] = 1" by simp
  have C: "midpoint_minimize
             (stage_c_args free_flight [[11 / 20] ! 0, [11 / 20, 15] ! 0, [11 / 20, 15] ! 1])
             (enter_stage ''Stage C (Refine)'' ''Final Refinement of All Parameters''
                (print (StageBComplete ([11 / 20] ! 0)) ?g2)) =
             (Inr [11 / 20, 11 / 20, 15], ?g3)"
    by (simp add: midpoint_c)
  have lc: "length [11 / 20 :: real, 11 / 20, 15] = 3" by simp
  from staged_calibration_order
    [where gp_minimize = midpoint_minimize and P = free_flight, OF A la B lb C lc]
  have "run_staged_calibration free_flight midpoint_minimize g_start =
     (Inr [(''friction'', [11 / 20, 11 / 20, 15] ! 0), (''elasticity'', [11 / 20, 11 / 20, 15] ! 1),
           (''mass'', [11 / 20 :: real, 11 / 20, 15] ! 2)],
      print RefinementComplete ?g3)"
    by blast
  then show ?thesis
    by (simp add: enter_stage_def print_def g_start_def Let_def)
qed

end
